theory Spec2Isabelle
  imports Complex_Main "HOL-Library.AList" "HOL-Library.Multiset" "HOL-Library.Monad_Syntax"
begin

section \<open>Data model (src/types/lightning.ts)\<close>

text \<open>
  A JavaScript \<open>number\<close> that holds a millisatoshi amount, a counter or a millisecond
  timestamp is an \<^typ>\<open>int\<close>. Where the source multiplies by a decimal constant and
  applies \<open>Math.floor\<close>, the product is taken in \<^typ>\<open>real\<close> and floored. This is the
  arithmetic of the source on integer amounts of the sizes a channel can have (the
  doubles are exact on them, and their floors are the exact ones, below \<open>2^47\<close>). NaN,
  the infinities, fractions of a millisatoshi and the rounding of larger doubles are
  outside this model.
  An optional field (\<open>name?: T\<close>) is an \<open>option\<close>: \<open>None\<close> is \<open>undefined\<close>.
\<close>

datatype PaymentStatus = Pending | Succeeded | Failed

datatype ChannelState = Pending | Open | Closing | Closed | ForceClosing

record Channel =
  channelId :: string
  shortChannelId :: "string option"
  remotePubkey :: string
  fundingTxid :: string
  capacityMsat :: int
  localBalanceMsat :: int
  remoteBalanceMsat :: int
  state :: ChannelState
  isUsable :: bool

record NodeInfo =
  nodeId :: string
  "alias" :: string
  numChannels :: int
  numUsableChannels :: int
  numPeers :: int
  blockHeight :: int
  syncedToChain :: bool
  version :: string

text \<open>
  \<open>paymentHash\<close> is declared \<open>string\<close>, but \<open>payInvoice\<close> fills it with
  \<open>decoded.tags.find(...)?.data as string\<close>, which is \<open>undefined\<close> when the invoice
  carries no such tag; so the field is an \<open>option\<close> here.
\<close>

record Payment =
  paymentHash :: "string option"
  paymentPreimage :: "string option"
  amountMsat :: int
  status :: PaymentStatus
  timestamp :: int
  description :: "string option"
  bolt11 :: "string option"
  feeMsat :: "int option"


text \<open>A thrown \<open>new Error(message)\<close>.\<close>

datatype error = Error string

section \<open>The service state (src/services/lightningService.ts)\<close>

text \<open>
  A JavaScript \<open>Map\<close> is an association list in insertion order with distinct keys:
  \<open>get\<close> is \<^const>\<open>map_of\<close>, \<open>set\<close> is \<^const>\<open>AList.update\<close> (an existing key keeps its
  place, a new key goes to the end), \<open>delete\<close> is \<^const>\<open>AList.delete\<close>, \<open>values()\<close> is
  \<open>map snd\<close> and \<open>entries()\<close> is the list itself.

  The keys of \<open>payments\<close> are what \<open>payInvoice\<close> passes to \<open>set\<close>: a hash string, or
  \<open>undefined\<close> for an invoice without a payment-hash tag. \<open>JSON.stringify\<close> writes an
  \<open>undefined\<close> array element as \<open>null\<close>, so a restored backup can also hold the key
  \<open>null\<close>.
\<close>

datatype key = KUndefined | KNull | KString string

datatype Network = Mainnet | Testnet | Regtest

text \<open>
  \<open>timers\<close> is the event loop's list of callbacks registered by \<open>setTimeout\<close> in
  \<open>closeChannel\<close> and not yet run: the delay in milliseconds and the \<open>channelId\<close> the
  closure has captured, oldest first.
\<close>

record LightningService =
  channels :: "(string \<times> Channel) list"
  payments :: "(key \<times> Payment) list"
  nodeInfo :: NodeInfo
  network :: Network
  timers :: "(int \<times> string) list"

text \<open>The constructor; \<open>nid\<close> is the result of \<open>generateNodeId()\<close>, a random public key.\<close>

definition constructor :: "Network \<Rightarrow> string \<Rightarrow> LightningService" where
  "constructor net nid =
     \<lparr>channels = [], payments = [],
      nodeInfo = \<lparr>nodeId = nid, alias = ''LDK MCP Node'', numChannels = 0,
                  numUsableChannels = 0, numPeers = 0, blockHeight = 800000,
                  syncedToChain = True, version = ''0.0.124''\<rparr>,
      network = net, timers = []\<rparr>"

subsection \<open>estimateFee\<close>


subsection \<open>createChannel\<close>

text \<open>
  The three random draws of \<open>createChannel\<close> are arguments: \<open>cid\<close> and \<open>txid\<close> are the
  two \<open>crypto.randomBytes(32).toString('hex')\<close>, \<open>scid\<close> is the string
  \<open>800000x${...}x${...}\<close> built from the two \<open>Math.random()\<close> draws. The result is the
  returned channel and the new state.
\<close>

definition createChannel ::
  "string \<Rightarrow> string \<Rightarrow> string \<Rightarrow> string \<Rightarrow> int \<Rightarrow> int \<Rightarrow> LightningService
     \<Rightarrow> Channel \<times> LightningService" where
  "createChannel cid txid scid remote capacity push s =
     (let channel = \<lparr>channelId = cid, shortChannelId = Some scid, remotePubkey = remote,
                      fundingTxid = txid, capacityMsat = capacity,
                      localBalanceMsat = capacity - push, remoteBalanceMsat = push,
                      state = Open, isUsable = True\<rparr>;
          s1 = s\<lparr>channels := AList.update cid channel (channels s)\<rparr>;
          s2 = s1\<lparr>nodeInfo := (nodeInfo s1)\<lparr>numChannels := numChannels (nodeInfo s1) + 1\<rparr>\<rparr>;
          s3 = s2\<lparr>nodeInfo := (nodeInfo s2)\<lparr>numUsableChannels := numUsableChannels (nodeInfo s2) + 1\<rparr>\<rparr>
      in (channel, s3))"

subsection \<open>closeChannel and its deferred callback\<close>

text \<open>
  \<open>closeChannel\<close> writes to the channel object that the map holds, so the entry changes
  in place, and registers the callback with \<open>setTimeout(..., 5000)\<close>.
\<close>

definition closeChannel :: "string \<Rightarrow> LightningService \<Rightarrow> (error + bool) \<times> LightningService" where
  "closeChannel cid s =
     (case map_of (channels s) cid of
        None \<Rightarrow> (Inl (Error ''Channel not found''), s)
      | Some channel \<Rightarrow>
          (let s1 = s\<lparr>channels := AList.update cid (channel\<lparr>state := Closing\<rparr>) (channels s)\<rparr>;
               s2 = s1\<lparr>channels := AList.map_entry cid (\<lambda>c. c\<lparr>isUsable := False\<rparr>) (channels s1)\<rparr>;
               s3 = s2\<lparr>nodeInfo := (nodeInfo s2)\<lparr>numUsableChannels := numUsableChannels (nodeInfo s2) - 1\<rparr>\<rparr>;
               s4 = s3\<lparr>timers := timers s3 @ [(5000, cid)]\<rparr>
           in (Inr True, s4)))"

text \<open>
  The callback body, in its three statements. The first writes \<open>Closed\<close> to the object
  the closure captured; that object is the one stored under \<open>cid\<close> unless the entry was
  replaced in between, and the entry is deleted by the next statement in either case.
\<close>

definition markClosed :: "string \<Rightarrow> LightningService \<Rightarrow> LightningService" where
  "markClosed cid s = s\<lparr>channels := AList.map_entry cid (\<lambda>c. c\<lparr>state := Closed\<rparr>) (channels s)\<rparr>"

definition closeCallback :: "string \<Rightarrow> LightningService \<Rightarrow> LightningService" where
  "closeCallback cid s =
     (let s1 = markClosed cid s;
          s2 = s1\<lparr>channels := AList.delete cid (channels s1)\<rparr>
      in s2\<lparr>nodeInfo := (nodeInfo s2)\<lparr>numChannels := numChannels (nodeInfo s2) - 1\<rparr>\<rparr>)"

text \<open>The event loop runs the oldest pending callback (all delays are equal).\<close>

definition fireTimer :: "LightningService \<Rightarrow> LightningService" where
  "fireTimer s =
     (case timers s of
        [] \<Rightarrow> s
      | (delay, cid) # rest \<Rightarrow> closeCallback cid (s\<lparr>timers := rest\<rparr>))"

subsection \<open>getChannelStatus, getBalance\<close>

definition getChannelStatus :: "LightningService \<Rightarrow> Channel list" where
  "getChannelStatus s = map snd (channels s)"



subsection \<open>payInvoice, listPayments\<close>

text \<open>
  What \<open>bolt11.decode\<close> returns, as far as \<open>payInvoice\<close> reads it: the tags that carry
  string data (\<open>tagName\<close>, \<open>data\<close>), in order, and \<open>millisatoshis\<close>, which the library
  gives as a string of decimal digits or \<open>null\<close> and which is kept as the number it
  denotes. The library is not part of the repository: the decoder is an argument
  \<open>decode\<close>, which returns the decoded request or the text of the exception it throws.
\<close>

record PaymentRequestObject =
  tags :: "(string \<times> string) list"
  millisatoshis :: "nat option"

definition tagData :: "PaymentRequestObject \<Rightarrow> string \<Rightarrow> string option" where
  "tagData decoded name = map_option snd (find (\<lambda>t. fst t = name) (tags decoded))"

text \<open>\<open>now\<close> is \<open>Date.now()\<close>, \<open>rnd\<close> is \<open>crypto.randomBytes(32).toString('hex')\<close>.\<close>

definition payInvoice ::
  "(string \<Rightarrow> string + PaymentRequestObject) \<Rightarrow> int \<Rightarrow> string \<Rightarrow> string \<Rightarrow> LightningService
     \<Rightarrow> (error + Payment) \<times> LightningService" where
  "payInvoice decode now rnd bolt11Invoice s =
     (case decode bolt11Invoice of
        Inl reason \<Rightarrow> (Inl (Error (''Failed to pay invoice: '' @ reason)), s)
      | Inr decoded \<Rightarrow>
          (let hash = tagData decoded ''payment_hash'';
               amount = (case millisatoshis decoded of None \<Rightarrow> 0 | Some n \<Rightarrow> int n);
               descr = tagData decoded ''description'';
               payment = \<lparr>paymentHash = hash, paymentPreimage = Some rnd, amountMsat = amount,
                          status = Succeeded, timestamp = now, description = descr,
                          bolt11 = Some bolt11Invoice,
                          feeMsat = Some \<lfloor>real_of_int amount * 0.001\<rfloor>\<rparr>;
               k = (case hash of None \<Rightarrow> KUndefined | Some h \<Rightarrow> KString h)
           in (Inr payment, s\<lparr>payments := AList.update k payment (payments s)\<rparr>)))"

text \<open>
  \<open>Array.prototype.sort\<close> is stable; with the comparator \<open>b.timestamp - a.timestamp\<close> it
  is the stable sort by descending timestamp, here by insertion from the right.
\<close>

fun insertPayment :: "Payment \<Rightarrow> Payment list \<Rightarrow> Payment list" where
  "insertPayment a [] = [a]"
| "insertPayment a (b # bs) =
     (if timestamp b - timestamp a \<le> 0 then a # b # bs else b # insertPayment a bs)"

definition sortPayments :: "Payment list \<Rightarrow> Payment list" where
  "sortPayments ps = foldr insertPayment ps []"

definition listPayments :: "LightningService \<Rightarrow> Payment list" where
  "listPayments s = sortPayments (map snd (payments s))"

subsection \<open>Sequences of operations\<close>

text \<open>
  The operations of the ledger that a caller or the event loop can run, each with the
  values it draws from outside (random hex strings, the clock). The reads and
  \<open>estimateFee\<close> return a value and leave the state as it is.
\<close>

datatype op =
    CreateChannel string string string string int int
  | CloseChannel string
  | TimerFires
  | PayInvoice int string string
  | GetChannelStatus
  | GetBalance
  | ListPayments
  | EstimateFee int

fun step :: "(string \<Rightarrow> string + PaymentRequestObject) \<Rightarrow> op \<Rightarrow> LightningService \<Rightarrow> LightningService" where
  "step decode (CreateChannel cid txid scid remote capacity push) s =
     snd (createChannel cid txid scid remote capacity push s)"
| "step decode (CloseChannel cid) s = snd (closeChannel cid s)"
| "step decode TimerFires s = fireTimer s"
| "step decode (PayInvoice now rnd bolt11Invoice) s = snd (payInvoice decode now rnd bolt11Invoice s)"
| "step decode GetChannelStatus s = s"
| "step decode GetBalance s = s"
| "step decode ListPayments s = s"
| "step decode (EstimateFee amount) s = s"

fun run :: "(string \<Rightarrow> string + PaymentRequestObject) \<Rightarrow> op list \<Rightarrow> LightningService \<Rightarrow> LightningService" where
  "run decode [] s = s"
| "run decode (x # xs) s = run decode xs (step decode x s)"

text \<open>
  A stand-in for \<open>bolt11.decode\<close> on four texts, for the concrete runs below: a request with
  a payment hash and an amount, two requests without a payment-hash tag, and a text the
  library rejects with the message it gives to a string that does not start with \<open>ln\<close>.
\<close>

definition sampleDecode :: "string \<Rightarrow> string + PaymentRequestObject" where
  "sampleDecode text =
     (if text = ''lntb2500n1hash'' then
        Inr \<lparr>tags = [(''payment_hash'', ''00ff''), (''description'', ''coffee'')],
             millisatoshis = Some 250000\<rparr>
      else if text = ''lntb1nohash'' then
        Inr \<lparr>tags = [(''description'', ''first'')], millisatoshis = Some 1000\<rparr>
      else if text = ''lntb2nohash'' then
        Inr \<lparr>tags = [(''description'', ''second'')], millisatoshis = Some 2000\<rparr>
      else Inl ''Error: Not a proper lightning payment request'')"

section \<open>Backup and restore\<close>

text \<open>
  \<open>JSON.stringify\<close>, \<open>JSON.parse\<close> and the base64 codec of \<open>Buffer\<close> belong to the
  runtime. A backup text is identified by what
  \<open>JSON.parse(Buffer.from(text, 'base64').toString())\<close> makes of it: the parsed value
  (\<open>Blob\<close>), or the text of the \<open>SyntaxError\<close> it throws (\<open>NotJSON\<close>). A value read out of
  a parsed tree is a \<open>json option\<close>: \<open>None\<close> is \<open>undefined\<close>.
\<close>

datatype json =
    JNull
  | JBool bool
  | JNumber int
  | JString string
  | JArray "json list"
  | JObject "(string \<times> json) list"

datatype blob = Blob json | NotJSON string

subsection \<open>What \<open>JSON.stringify\<close> writes for the state\<close>






definition jsonNodeInfo :: "NodeInfo \<Rightarrow> json" where
  "jsonNodeInfo n =
     JObject [(''nodeId'', JString (nodeId n)),
              (''alias'', JString (alias n)),
              (''numChannels'', JNumber (numChannels n)),
              (''numUsableChannels'', JNumber (numUsableChannels n)),
              (''numPeers'', JNumber (numPeers n)),
              (''blockHeight'', JNumber (blockHeight n)),
              (''syncedToChain'', JBool (syncedToChain n)),
              (''version'', JString (version n))]"



subsection \<open>Reading a parsed value at the declared types\<close>

text \<open>
  \<open>restoreState\<close> assigns what it parsed without a check. The readers below say which
  parsed values are a \<open>NodeInfo\<close>, a \<open>Channel\<close>, a \<open>Payment\<close> and a key as the types of
  the source declare them (with \<open>undefined\<close> and \<open>null\<close> among the payment keys, see
  above); they return \<open>None\<close> for any other value. A property that the type does not
  declare is read by nothing in the service and is not kept.
\<close>

fun asString :: "json option \<Rightarrow> string option" where
  "asString (Some (JString x)) = Some x"
| "asString _ = None"

fun asNumber :: "json option \<Rightarrow> int option" where
  "asNumber (Some (JNumber x)) = Some x"
| "asNumber _ = None"

fun asBoolean :: "json option \<Rightarrow> bool option" where
  "asBoolean (Some (JBool x)) = Some x"
| "asBoolean _ = None"

fun asOptString :: "json option \<Rightarrow> string option option" where
  "asOptString None = Some None"
| "asOptString (Some (JString x)) = Some (Some x)"
| "asOptString _ = None"

fun asOptNumber :: "json option \<Rightarrow> int option option" where
  "asOptNumber None = Some None"
| "asOptNumber (Some (JNumber x)) = Some (Some x)"
| "asOptNumber _ = None"

fun asChannelState :: "json option \<Rightarrow> ChannelState option" where
  "asChannelState (Some (JString x)) =
     (if x = ''pending'' then Some Pending
      else if x = ''open'' then Some Open
      else if x = ''closing'' then Some Closing
      else if x = ''closed'' then Some Closed
      else if x = ''force_closing'' then Some ForceClosing
      else None)"
| "asChannelState _ = None"

fun asPaymentStatus :: "json option \<Rightarrow> PaymentStatus option" where
  "asPaymentStatus (Some (JString x)) =
     (if x = ''pending'' then Some PaymentStatus.Pending
      else if x = ''succeeded'' then Some Succeeded
      else if x = ''failed'' then Some Failed
      else None)"
| "asPaymentStatus _ = None"

fun asKey :: "json option \<Rightarrow> key option" where
  "asKey None = Some KUndefined"
| "asKey (Some JNull) = Some KNull"
| "asKey (Some (JString h)) = Some (KString h)"
| "asKey _ = None"

definition asChannel :: "json option \<Rightarrow> Channel option" where
  "asChannel v =
     (case v of
        Some (JObject fs) \<Rightarrow> do {
          cid \<leftarrow> asString (map_of fs ''channelId'');
          scid \<leftarrow> asOptString (map_of fs ''shortChannelId'');
          remote \<leftarrow> asString (map_of fs ''remotePubkey'');
          txid \<leftarrow> asString (map_of fs ''fundingTxid'');
          capacity \<leftarrow> asNumber (map_of fs ''capacityMsat'');
          local \<leftarrow> asNumber (map_of fs ''localBalanceMsat'');
          remoteBal \<leftarrow> asNumber (map_of fs ''remoteBalanceMsat'');
          st \<leftarrow> asChannelState (map_of fs ''state'');
          usable \<leftarrow> asBoolean (map_of fs ''isUsable'');
          Some \<lparr>channelId = cid, shortChannelId = scid, remotePubkey = remote,
                fundingTxid = txid, capacityMsat = capacity, localBalanceMsat = local,
                remoteBalanceMsat = remoteBal, state = st, isUsable = usable\<rparr>
        }
      | _ \<Rightarrow> None)"

definition asPayment :: "json option \<Rightarrow> Payment option" where
  "asPayment v =
     (case v of
        Some (JObject fs) \<Rightarrow> do {
          hash \<leftarrow> asOptString (map_of fs ''paymentHash'');
          preimage \<leftarrow> asOptString (map_of fs ''paymentPreimage'');
          amount \<leftarrow> asNumber (map_of fs ''amountMsat'');
          st \<leftarrow> asPaymentStatus (map_of fs ''status'');
          ts \<leftarrow> asNumber (map_of fs ''timestamp'');
          descr \<leftarrow> asOptString (map_of fs ''description'');
          inv \<leftarrow> asOptString (map_of fs ''bolt11'');
          fee \<leftarrow> asOptNumber (map_of fs ''feeMsat'');
          Some \<lparr>paymentHash = hash, paymentPreimage = preimage, amountMsat = amount,
                status = st, timestamp = ts, description = descr, bolt11 = inv,
                feeMsat = fee\<rparr>
        }
      | _ \<Rightarrow> None)"

definition asNodeInfo :: "json option \<Rightarrow> NodeInfo option" where
  "asNodeInfo v =
     (case v of
        Some (JObject fs) \<Rightarrow> do {
          nid \<leftarrow> asString (map_of fs ''nodeId'');
          al \<leftarrow> asString (map_of fs ''alias'');
          n \<leftarrow> asNumber (map_of fs ''numChannels'');
          nu \<leftarrow> asNumber (map_of fs ''numUsableChannels'');
          np \<leftarrow> asNumber (map_of fs ''numPeers'');
          h \<leftarrow> asNumber (map_of fs ''blockHeight'');
          synced \<leftarrow> asBoolean (map_of fs ''syncedToChain'');
          ver \<leftarrow> asString (map_of fs ''version'');
          Some \<lparr>nodeId = nid, alias = al, numChannels = n, numUsableChannels = nu,
                numPeers = np, blockHeight = h, syncedToChain = synced, version = ver\<rparr>
        }
      | _ \<Rightarrow> None)"

fun asChannels :: "(json option \<times> json option) list \<Rightarrow> (string \<times> Channel) list option" where
  "asChannels [] = Some []"
| "asChannels ((k, v) # es) = do {
     k' \<leftarrow> asString k;
     c \<leftarrow> asChannel v;
     rest \<leftarrow> asChannels es;
     Some ((k', c) # rest)
   }"

fun asPayments :: "(json option \<times> json option) list \<Rightarrow> (key \<times> Payment) list option" where
  "asPayments [] = Some []"
| "asPayments ((k, v) # es) = do {
     k' \<leftarrow> asKey k;
     p \<leftarrow> asPayment v;
     rest \<leftarrow> asPayments es;
     Some ((k', p) # rest)
   }"

subsection \<open>Property reads and \<open>new Map(iterable)\<close> on parsed values\<close>

text \<open>
  \<open>state.name\<close> on a parsed value other than \<open>null\<close>: the property of an object,
  \<open>undefined\<close> on a number, a boolean, a string or an array (none of the three names
  read is a property of those). On \<open>null\<close> the read throws a \<open>TypeError\<close>, which
  \<open>restoreState\<close> tests first. A thrown \<open>TypeError\<close> is the string \<open>TypeError\<close>: the
  message text after the name is the engine's and is left out.
\<close>

fun readProp :: "json \<Rightarrow> string \<Rightarrow> json option" where
  "readProp (JObject fs) name = map_of fs name"
| "readProp other name = None"

text \<open>
  \<open>new Map(x)\<close>: empty for \<open>undefined\<close> and \<open>null\<close>; for an array, every element must be
  an object (an array or an object) and gives the entry (element \<open>0\<close>, element \<open>1\<close>),
  set in order; a string iterates over its characters, which are not objects; a
  number, a boolean and an object are not iterable. Keys are compared by value, which
  is how a \<open>Map\<close> compares strings, numbers, booleans, \<open>null\<close> and \<open>undefined\<close>; a key
  that is an array or an object is of no declared type, and the readers above refuse it.
\<close>

fun entryOf :: "json \<Rightarrow> (json option \<times> json option) option" where
  "entryOf (JArray []) = Some (None, None)"
| "entryOf (JArray [k]) = Some (Some k, None)"
| "entryOf (JArray (k # v # rest)) = Some (Some k, Some v)"
| "entryOf (JObject fs) = Some (map_of fs ''0'', map_of fs ''1'')"
| "entryOf _ = None"

fun mapEntries ::
  "json list \<Rightarrow> (json option \<times> json option) list \<Rightarrow> string + (json option \<times> json option) list" where
  "mapEntries [] m = Inr m"
| "mapEntries (e # es) m =
     (case entryOf e of
        None \<Rightarrow> Inl ''TypeError''
      | Some (k, v) \<Rightarrow> mapEntries es (AList.update k v m))"

fun newMap :: "json option \<Rightarrow> string + (json option \<times> json option) list" where
  "newMap None = Inr []"
| "newMap (Some JNull) = Inr []"
| "newMap (Some (JArray es)) = mapEntries es []"
| "newMap (Some (JString str)) = (if str = [] then Inr [] else Inl ''TypeError'')"
| "newMap (Some (JBool b)) = Inl ''TypeError''"
| "newMap (Some (JNumber n)) = Inl ''TypeError''"
| "newMap (Some (JObject fs)) = Inl ''TypeError''"

subsection \<open>restoreState\<close>

text \<open>
  The three assignments in their order (\<open>restoreState\<close>, then \<open>restoreChannels\<close>, then
  \<open>restorePayments\<close>), each behind the expression that can throw before it; any
  exception leaves through the \<open>catch\<close> as
  \<open>Error('Failed to restore state: ...')\<close> with the fields assigned so far in place.
  \<open>Untyped\<close> is the outcome when a value that was assigned is not of the declared type:
  the service then holds it all the same, and this model says no more about it.
\<close>

datatype outcome = Done "error + bool" LightningService | Untyped

definition restoreFailed :: "string \<Rightarrow> error" where
  "restoreFailed reason = Error (''Failed to restore state: '' @ reason)"

definition restorePayments :: "json \<Rightarrow> LightningService \<Rightarrow> outcome" where
  "restorePayments st s2 =
     (case newMap (readProp st ''payments'') of
        Inl reason \<Rightarrow> Done (Inl (restoreFailed reason)) s2
      | Inr es \<Rightarrow>
          (case asPayments es of
             None \<Rightarrow> Untyped
           | Some ps \<Rightarrow> Done (Inr True) (s2\<lparr>payments := ps\<rparr>)))"

definition restoreChannels :: "json \<Rightarrow> LightningService \<Rightarrow> outcome" where
  "restoreChannels st s1 =
     (case newMap (readProp st ''channels'') of
        Inl reason \<Rightarrow> Done (Inl (restoreFailed reason)) s1
      | Inr es \<Rightarrow>
          (case asChannels es of
             None \<Rightarrow> Untyped
           | Some chs \<Rightarrow> restorePayments st (s1\<lparr>channels := chs\<rparr>)))"

definition restoreState :: "blob \<Rightarrow> LightningService \<Rightarrow> outcome" where
  "restoreState backup s =
     (case backup of
        NotJSON reason \<Rightarrow> Done (Inl (restoreFailed reason)) s
      | Blob st \<Rightarrow>
          (if st = JNull then Done (Inl (restoreFailed ''TypeError'')) s
           else
             (case asNodeInfo (readProp st ''nodeInfo'') of
                None \<Rightarrow> Untyped
              | Some n \<Rightarrow> restoreChannels st (s\<lparr>nodeInfo := n\<rparr>))))"

subsection \<open>Ledgers that arise from a new service\<close>


section \<open>Notions used in the statements\<close>





text \<open>Concrete values for the runs below.\<close>

definition paymentA :: Payment where
  "paymentA = \<lparr>paymentHash = None, paymentPreimage = Some ''aa'', amountMsat = 1000,
                status = Succeeded, timestamp = 100, description = Some ''first'',
                bolt11 = Some ''lntb1nohash'', feeMsat = Some 1\<rparr>"

definition paymentB :: Payment where
  "paymentB = \<lparr>paymentHash = None, paymentPreimage = Some ''bb'', amountMsat = 2000,
                status = Succeeded, timestamp = 200, description = Some ''second'',
                bolt11 = Some ''lntb2nohash'', feeMsat = Some 2\<rparr>"

definition ledgerWith :: "(key \<times> Payment) list \<Rightarrow> LightningService" where
  "ledgerWith ps = (constructor Testnet ''02ab'')\<lparr>payments := ps\<rparr>"


section \<open>Properties\<close>

subsection \<open>Arithmetic and association lists\<close>


lemma map_entry_update:
  "AList.map_entry k f (AList.update k v xs) = AList.update k (f v) xs"
  by (induction xs) auto

lemma delete_map_entry: "AList.delete k (AList.map_entry k f xs) = AList.delete k xs"
  by (induction xs) (auto simp: AList.delete_eq)


lemma all_update:
  "\<forall>c \<in> snd ` set xs. P c \<Longrightarrow> P v \<Longrightarrow> \<forall>c \<in> snd ` set (AList.update k v xs). P c"
  by (induction xs) auto

lemma all_delete:
  "\<forall>c \<in> snd ` set xs. P c \<Longrightarrow> \<forall>c \<in> snd ` set (AList.delete k xs). P c"
  by (auto simp: AList.delete_eq)



subsection \<open>estimateFee\<close>


subsection \<open>closeChannel\<close>

lemma closeChannel_found:
  "map_of (channels s) cid = Some c \<Longrightarrow>
   closeChannel cid s =
     (Inr True,
      s\<lparr>channels := AList.update cid (c\<lparr>state := Closing, isUsable := False\<rparr>) (channels s),
        nodeInfo := (nodeInfo s)\<lparr>numUsableChannels := numUsableChannels (nodeInfo s) - 1\<rparr>,
        timers := timers s @ [(5000, cid)]\<rparr>)"
  by (simp add: closeChannel_def Let_def map_entry_update)

lemma closeChannel_absent:
  "map_of (channels s) cid = None \<Longrightarrow> closeChannel cid s = (Inl (Error ''Channel not found''), s)"
  by (simp add: closeChannel_def)

lemma closeCallback_eq:
  "closeCallback cid s =
     s\<lparr>channels := AList.delete cid (channels s),
       nodeInfo := (nodeInfo s)\<lparr>numChannels := numChannels (nodeInfo s) - 1\<rparr>\<rparr>"
  by (simp add: closeCallback_def markClosed_def Let_def delete_map_entry)

text \<open>
  C5. \<open>closeChannel\<close> throws \<open>Error('Channel not found')\<close> exactly when the identifier is
  not a key of the channel map, and then leaves the whole state as it was. When the
  identifier maps to a channel, the call returns \<open>true\<close>; the entry has state \<open>Closing\<close>
  and is not usable, the usable counter is one less, everything else in \<open>nodeInfo\<close> and
  the payments are unchanged, and one callback with delay 5000 for this identifier is
  appended to the pending timers. Running that callback sets the entry to \<open>Closed\<close>,
  deletes the identifier from the map and takes one off the total counter, on whatever
  state it runs; when no other timer was pending, it is the one the event loop runs
  next.
\<close>

theorem closeChannel_behaviour:
  "(fst (closeChannel cid s) = Inl (Error ''Channel not found'') \<longleftrightarrow> map_of (channels s) cid = None)
   \<and> (map_of (channels s) cid = None \<longrightarrow> closeChannel cid s = (Inl (Error ''Channel not found''), s))
   \<and> (\<forall>c. map_of (channels s) cid = Some c \<longrightarrow>
         fst (closeChannel cid s) = Inr True
       \<and> channels (snd (closeChannel cid s)) =
           AList.update cid (c\<lparr>state := Closing, isUsable := False\<rparr>) (channels s)
       \<and> map_of (channels (snd (closeChannel cid s))) cid = Some (c\<lparr>state := Closing, isUsable := False\<rparr>)
       \<and> nodeInfo (snd (closeChannel cid s)) =
           (nodeInfo s)\<lparr>numUsableChannels := numUsableChannels (nodeInfo s) - 1\<rparr>
       \<and> payments (snd (closeChannel cid s)) = payments s
       \<and> timers (snd (closeChannel cid s)) = timers s @ [(5000, cid)]
       \<and> map_of (channels (markClosed cid (snd (closeChannel cid s)))) cid =
           Some (c\<lparr>state := Closed, isUsable := False\<rparr>)
       \<and> channels (closeCallback cid (snd (closeChannel cid s))) = AList.delete cid (channels s)
       \<and> map_of (channels (closeCallback cid (snd (closeChannel cid s)))) cid = None
       \<and> numChannels (nodeInfo (closeCallback cid (snd (closeChannel cid s)))) =
           numChannels (nodeInfo s) - 1
       \<and> (timers s = [] \<longrightarrow>
           fireTimer (snd (closeChannel cid s)) = (closeCallback cid (snd (closeChannel cid s)))\<lparr>timers := []\<rparr>))
   \<and> closeCallback cid t =
       t\<lparr>channels := AList.delete cid (channels t),
         nodeInfo := (nodeInfo t)\<lparr>numChannels := numChannels (nodeInfo t) - 1\<rparr>\<rparr>"
proof (intro conjI allI impI)
  show "(fst (closeChannel cid s) = Inl (Error ''Channel not found'')) = (map_of (channels s) cid = None)"
    by (cases "map_of (channels s) cid") (simp_all add: closeChannel_absent closeChannel_found)
next
  assume "map_of (channels s) cid = None"
  then show "closeChannel cid s = (Inl (Error ''Channel not found''), s)"
    by (rule closeChannel_absent)
next
  fix c assume c: "map_of (channels s) cid = Some c"
  note eq = closeChannel_found [OF c]
  show "fst (closeChannel cid s) = Inr True" by (simp add: eq)
  show "channels (snd (closeChannel cid s)) =
           AList.update cid (c\<lparr>state := Closing, isUsable := False\<rparr>) (channels s)"
    by (simp add: eq)
  show "map_of (channels (snd (closeChannel cid s))) cid = Some (c\<lparr>state := Closing, isUsable := False\<rparr>)"
    by (simp add: eq update_conv')
  show "nodeInfo (snd (closeChannel cid s)) =
           (nodeInfo s)\<lparr>numUsableChannels := numUsableChannels (nodeInfo s) - 1\<rparr>"
    by (simp add: eq)
  show "payments (snd (closeChannel cid s)) = payments s" by (simp add: eq)
  show "timers (snd (closeChannel cid s)) = timers s @ [(5000, cid)]" by (simp add: eq)
  show "map_of (channels (markClosed cid (snd (closeChannel cid s)))) cid =
           Some (c\<lparr>state := Closed, isUsable := False\<rparr>)"
    by (simp add: eq markClosed_def map_entry_update update_conv')
  show "channels (closeCallback cid (snd (closeChannel cid s))) = AList.delete cid (channels s)"
    by (simp add: eq closeCallback_eq delete_update_same)
  show "map_of (channels (closeCallback cid (snd (closeChannel cid s)))) cid = None"
    by (simp add: eq closeCallback_eq delete_update_same delete_conv')
  show "numChannels (nodeInfo (closeCallback cid (snd (closeChannel cid s)))) =
           numChannels (nodeInfo s) - 1"
    by (simp add: eq closeCallback_eq)
  assume "timers s = []"
  then show "fireTimer (snd (closeChannel cid s)) = (closeCallback cid (snd (closeChannel cid s)))\<lparr>timers := []\<rparr>"
    by (simp add: eq fireTimer_def closeCallback_eq)
next
  show "closeCallback cid t =
       t\<lparr>channels := AList.delete cid (channels t),
         nodeInfo := (nodeInfo t)\<lparr>numChannels := numChannels (nodeInfo t) - 1\<rparr>\<rparr>"
    by (rule closeCallback_eq)
qed

theorem closeChannel_behaviour_witness:
  "map_of (channels (snd (createChannel ''c1'' ''t1'' ''800000x1x2'' ''03ff'' 1000000 100000
        (constructor Testnet ''02ab'')))) ''c1'' \<noteq> None
   \<and> fst (closeChannel ''c1'' (snd (createChannel ''c1'' ''t1'' ''800000x1x2'' ''03ff'' 1000000 100000
        (constructor Testnet ''02ab'')))) = Inr True
   \<and> timers (snd (createChannel ''c1'' ''t1'' ''800000x1x2'' ''03ff'' 1000000 100000
        (constructor Testnet ''02ab''))) = []
   \<and> channels (fireTimer (snd (closeChannel ''c1''
        (snd (createChannel ''c1'' ''t1'' ''800000x1x2'' ''03ff'' 1000000 100000
           (constructor Testnet ''02ab''))))))  = []
   \<and> map_of (channels (constructor Testnet ''02ab'')) ''c1'' = None
   \<and> closeChannel ''c1'' (constructor Testnet ''02ab'') =
        (Inl (Error ''Channel not found''), constructor Testnet ''02ab'')"
  using closeChannel_behaviour [of "''c1''" "constructor Testnet ''02ab''"]
    closeChannel_behaviour [of "''c1''" "snd (createChannel ''c1'' ''t1'' ''800000x1x2'' ''03ff'' 1000000 100000
        (constructor Testnet ''02ab''))"]
  by (simp add: constructor_def createChannel_def closeChannel_def fireTimer_def
      closeCallback_def markClosed_def AList.delete_eq Let_def)

lemma step_keeps_entry:
  assumes "x \<noteq> TimerFires" and "map_of (channels s) k \<noteq> None"
  shows "map_of (channels (step decode x s)) k \<noteq> None"
proof (cases x)
  case (CreateChannel cid txid scid remote capacity push)
  then show ?thesis using assms by (simp add: createChannel_def Let_def update_conv')
next
  case (CloseChannel cid)
  then show ?thesis using assms
    by (cases "map_of (channels s) cid")
      (simp_all add: closeChannel_absent closeChannel_found update_conv')
next
  case (PayInvoice now rnd invoice)
  then show ?thesis using assms
    by (cases "decode invoice") (simp_all add: payInvoice_def Let_def)
qed (use assms in simp_all)

lemma run_keeps_entry:
  "TimerFires \<notin> set ops \<Longrightarrow> map_of (channels s) k \<noteq> None
   \<Longrightarrow> map_of (channels (run decode ops s)) k \<noteq> None"
proof (induction ops arbitrary: s)
  case Nil
  then show ?case by simp
next
  case (Cons x xs)
  have "map_of (channels (step decode x s)) k \<noteq> None"
    using Cons.prems by (intro step_keeps_entry) auto
  then have "map_of (channels (run decode xs (step decode x s))) k \<noteq> None"
    using Cons.prems by (intro Cons.IH) auto
  then show ?case by simp
qed

lemma closeChannel_again:
  assumes c: "map_of (channels s) cid = Some c" and ops: "TimerFires \<notin> set ops"
  shows "fst (closeChannel cid (run decode ops (snd (closeChannel cid s)))) = Inr True
     \<and> numUsableChannels (nodeInfo (snd (closeChannel cid (run decode ops (snd (closeChannel cid s)))))) =
         numUsableChannels (nodeInfo (run decode ops (snd (closeChannel cid s)))) - 1"
proof -
  have "map_of (channels (snd (closeChannel cid s))) cid \<noteq> None"
    by (simp add: closeChannel_found [OF c] update_conv')
  then have "map_of (channels (run decode ops (snd (closeChannel cid s)))) cid \<noteq> None"
    using ops by (intro run_keeps_entry)
  then obtain c' where "map_of (channels (run decode ops (snd (closeChannel cid s)))) cid = Some c'"
    by blast
  from closeChannel_found [OF this] show ?thesis by simp
qed


text \<open>
  C9. While the callback of a first \<open>closeChannel\<close> has not run, the channel is still in
  the map, so a second \<open>closeChannel\<close> with the same identifier returns \<open>true\<close> as well
  and takes one more off the usable counter: two less than before the first call, with
  two callbacks pending. The same holds with other ledger operations between the two
  calls, as long as no close callback runs: the second call returns \<open>true\<close> and takes
  one off the counter as it then stands. After one \<open>createChannel\<close> on a new service and
  two such calls the counter is \<open>-1\<close>, below zero and below the number of usable
  channels, which is 0.
\<close>

theorem closeChannel_twice:
  "(map_of (channels s) cid = Some c \<longrightarrow>
       fst (closeChannel cid s) = Inr True
     \<and> fst (closeChannel cid (snd (closeChannel cid s))) = Inr True
     \<and> numUsableChannels (nodeInfo (snd (closeChannel cid (snd (closeChannel cid s))))) =
         numUsableChannels (nodeInfo s) - 2
     \<and> timers (snd (closeChannel cid (snd (closeChannel cid s)))) =
         timers s @ [(5000, cid), (5000, cid)])
   \<and> (map_of (channels s) cid = Some c \<and> TimerFires \<notin> set ops \<longrightarrow>
       fst (closeChannel cid (run decode ops (snd (closeChannel cid s)))) = Inr True
     \<and> numUsableChannels (nodeInfo (snd (closeChannel cid (run decode ops (snd (closeChannel cid s)))))) =
         numUsableChannels (nodeInfo (run decode ops (snd (closeChannel cid s)))) - 1)
   \<and> numUsableChannels (nodeInfo (run decode
         [CreateChannel ''c1'' ''t1'' ''800000x1x2'' ''03ff'' 1000000 0, CloseChannel ''c1'', CloseChannel ''c1'']
         (constructor net nid))) = - 1
   \<and> length (filter isUsable (getChannelStatus (run decode
         [CreateChannel ''c1'' ''t1'' ''800000x1x2'' ''03ff'' 1000000 0, CloseChannel ''c1'', CloseChannel ''c1'']
         (constructor net nid)))) = 0"
proof -
  have twice: "fst (closeChannel cid s) = Inr True
     \<and> fst (closeChannel cid (snd (closeChannel cid s))) = Inr True
     \<and> numUsableChannels (nodeInfo (snd (closeChannel cid (snd (closeChannel cid s))))) =
         numUsableChannels (nodeInfo s) - 2
     \<and> timers (snd (closeChannel cid (snd (closeChannel cid s)))) =
         timers s @ [(5000, cid), (5000, cid)]"
    if c: "map_of (channels s) cid = Some c"
  proof -
    note eq = closeChannel_found [OF c]
    have c': "map_of (channels (snd (closeChannel cid s))) cid =
        Some (c\<lparr>state := Closing, isUsable := False\<rparr>)"
      by (simp add: eq update_conv')
    note eq' = closeChannel_found [OF c']
    have "fst (closeChannel cid s) = Inr True" by (simp add: eq)
    moreover have "fst (closeChannel cid (snd (closeChannel cid s))) = Inr True" by (simp add: eq')
    moreover have "numUsableChannels (nodeInfo (snd (closeChannel cid (snd (closeChannel cid s))))) =
         numUsableChannels (nodeInfo s) - 2"
      by (subst eq') (simp add: eq)
    moreover have "timers (snd (closeChannel cid (snd (closeChannel cid s)))) =
         timers s @ [(5000, cid), (5000, cid)]"
      by (subst eq') (simp add: eq)
    ultimately show ?thesis by blast
  qed
  have later: "fst (closeChannel cid (run decode ops (snd (closeChannel cid s)))) = Inr True
     \<and> numUsableChannels (nodeInfo (snd (closeChannel cid (run decode ops (snd (closeChannel cid s)))))) =
         numUsableChannels (nodeInfo (run decode ops (snd (closeChannel cid s)))) - 1"
    if "map_of (channels s) cid = Some c \<and> TimerFires \<notin> set ops"
    using that closeChannel_again [of s cid c ops decode] by blast
  have neg: "numUsableChannels (nodeInfo (run decode
         [CreateChannel ''c1'' ''t1'' ''800000x1x2'' ''03ff'' 1000000 0, CloseChannel ''c1'', CloseChannel ''c1'']
         (constructor net nid))) = - 1"
    by (simp add: constructor_def createChannel_def closeChannel_def Let_def)
  have none: "length (filter isUsable (getChannelStatus (run decode
         [CreateChannel ''c1'' ''t1'' ''800000x1x2'' ''03ff'' 1000000 0, CloseChannel ''c1'', CloseChannel ''c1'']
         (constructor net nid)))) = 0"
    by (simp add: constructor_def createChannel_def closeChannel_def getChannelStatus_def Let_def)
  show ?thesis using twice later neg none by blast
qed

theorem closeChannel_twice_witness:
  "map_of (channels (snd (createChannel ''c1'' ''t1'' ''800000x1x2'' ''03ff'' 1000000 0
        (constructor Testnet ''02ab'')))) ''c1'' \<noteq> None
   \<and> fst (closeChannel ''c1'' (snd (closeChannel ''c1''
        (snd (createChannel ''c1'' ''t1'' ''800000x1x2'' ''03ff'' 1000000 0
           (constructor Testnet ''02ab'')))))) = Inr True
   \<and> numUsableChannels (nodeInfo (snd (closeChannel ''c1'' (snd (closeChannel ''c1''
        (snd (createChannel ''c1'' ''t1'' ''800000x1x2'' ''03ff'' 1000000 0
           (constructor Testnet ''02ab'')))))))) = - 1
   \<and> TimerFires \<notin> set [PayInvoice 1 ''r'' ''lntb2500n1hash'']
   \<and> fst (closeChannel ''c1'' (run sampleDecode [PayInvoice 1 ''r'' ''lntb2500n1hash'']
        (snd (closeChannel ''c1''
           (snd (createChannel ''c1'' ''t1'' ''800000x1x2'' ''03ff'' 1000000 0
              (constructor Testnet ''02ab''))))))) = Inr True"
  using closeChannel_twice [of "snd (createChannel ''c1'' ''t1'' ''800000x1x2'' ''03ff'' 1000000 0
        (constructor Testnet ''02ab''))" "''c1''"
      "\<lparr>channelId = ''c1'', shortChannelId = Some ''800000x1x2'', remotePubkey = ''03ff'',
        fundingTxid = ''t1'', capacityMsat = 1000000, localBalanceMsat = 1000000,
        remoteBalanceMsat = 0, state = Open, isUsable = True\<rparr>"
      "[PayInvoice 1 ''r'' ''lntb2500n1hash'']" sampleDecode Testnet "''02ab''"]
  by (simp add: constructor_def createChannel_def Let_def)

subsection \<open>payInvoice\<close>



text \<open>
  C6. When the decoder throws, \<open>payInvoice\<close> throws
  \<open>Error('Failed to pay invoice: ' + reason)\<close> with the decoder's own reason, and the
  state, so the payments map, is as it was.
\<close>

theorem payInvoice_decode_failure:
  "decode invoice = Inl reason \<Longrightarrow>
   payInvoice decode now rnd invoice s = (Inl (Error (''Failed to pay invoice: '' @ reason)), s)
   \<and> payments (snd (payInvoice decode now rnd invoice s)) = payments s"
  by (simp add: payInvoice_def)

theorem payInvoice_decode_failure_witness:
  "sampleDecode ''not-an-invoice'' = Inl ''Error: Not a proper lightning payment request''
   \<and> payInvoice sampleDecode 1 ''r'' ''not-an-invoice'' (constructor Testnet ''02ab'') =
       (Inl (Error ''Failed to pay invoice: Error: Not a proper lightning payment request''),
        constructor Testnet ''02ab'')"
proof -
  have d: "sampleDecode ''not-an-invoice'' = Inl ''Error: Not a proper lightning payment request''"
    by (simp add: sampleDecode_def)
  show ?thesis
    using payInvoice_decode_failure [where decode = sampleDecode and invoice = "''not-an-invoice''"
        and now = 1 and rnd = "''r''" and s = "constructor Testnet ''02ab''", OF d] d
    by simp
qed

subsection \<open>listPayments\<close>

lemma mset_insertPayment: "mset (insertPayment a bs) = add_mset a (mset bs)"
  by (induction bs) auto

lemma set_insertPayment: "set (insertPayment a bs) = insert a (set bs)"
  by (induction bs) auto

lemma sorted_insertPayment:
  "sorted_wrt (\<lambda>x y. timestamp y \<le> timestamp x) bs
   \<Longrightarrow> sorted_wrt (\<lambda>x y. timestamp y \<le> timestamp x) (insertPayment a bs)"
  by (induction bs) (auto simp: set_insertPayment)

lemma mset_sortPayments: "mset (sortPayments ps) = mset ps"
  unfolding sortPayments_def by (induction ps) (auto simp: mset_insertPayment)

lemma sorted_sortPayments: "sorted_wrt (\<lambda>x y. timestamp y \<le> timestamp x) (sortPayments ps)"
  unfolding sortPayments_def by (induction ps) (auto simp: sorted_insertPayment)

text \<open>
  C8. \<open>listPayments\<close> returns the payments of the map, each as often as it is stored,
  in an order in which no payment stands before one with a later timestamp.
\<close>

theorem listPayments_all_sorted:
  "mset (listPayments s) = mset (map snd (payments s))
   \<and> sorted_wrt (\<lambda>x y. timestamp y \<le> timestamp x) (listPayments s)"
  by (simp add: listPayments_def mset_sortPayments sorted_sortPayments)


theorem listPayments_all_sorted_witness:
  "listPayments (ledgerWith [(KNull, paymentA), (KUndefined, paymentB)]) = [paymentB, paymentA]
   \<and> mset (listPayments (ledgerWith [(KNull, paymentA), (KUndefined, paymentB)])) =
       mset (map snd (payments (ledgerWith [(KNull, paymentA), (KUndefined, paymentB)])))
   \<and> sorted_wrt (\<lambda>x y. timestamp y \<le> timestamp x)
       (listPayments (ledgerWith [(KNull, paymentA), (KUndefined, paymentB)]))"
proof -
  have "listPayments (ledgerWith [(KNull, paymentA), (KUndefined, paymentB)]) = [paymentB, paymentA]"
    by (simp add: listPayments_def sortPayments_def ledgerWith_def paymentA_def paymentB_def)
  then show ?thesis
    using listPayments_all_sorted [of "ledgerWith [(KNull, paymentA), (KUndefined, paymentB)]"]
    by simp
qed

subsection \<open>Invariants of the operations\<close>

lemma step_preserves:
  assumes new: "\<And>cid scid remote txid capacity push.
      P \<lparr>channelId = cid, shortChannelId = Some scid, remotePubkey = remote, fundingTxid = txid,
         capacityMsat = capacity, localBalanceMsat = capacity - push, remoteBalanceMsat = push,
         state = Open, isUsable = True\<rparr>"
    and closing: "\<And>c. P c \<Longrightarrow> P (c\<lparr>state := Closing, isUsable := False\<rparr>)"
    and inv: "\<forall>c \<in> snd ` set (channels s). P c"
  shows "\<forall>c \<in> snd ` set (channels (step decode x s)). P c"
proof (cases x)
  case (CreateChannel cid txid scid remote capacity push)
  have "channels (step decode x s) =
          AList.update cid \<lparr>channelId = cid, shortChannelId = Some scid, remotePubkey = remote,
            fundingTxid = txid, capacityMsat = capacity, localBalanceMsat = capacity - push,
            remoteBalanceMsat = push, state = Open, isUsable = True\<rparr> (channels s)"
    by (simp add: CreateChannel createChannel_def Let_def)
  then show ?thesis using all_update [OF inv new] by simp
next
  case (CloseChannel cid)
  show ?thesis
  proof (cases "map_of (channels s) cid")
    case None
    then show ?thesis using inv CloseChannel by (simp add: closeChannel_absent)
  next
    case (Some c)
    then have "(cid, c) \<in> set (channels s)" by (rule map_of_SomeD)
    then have "c \<in> snd ` set (channels s)" by force
    then have "P (c\<lparr>state := Closing, isUsable := False\<rparr>)" using inv closing by blast
    from all_update [OF inv this]
    show ?thesis by (simp add: CloseChannel closeChannel_found [OF Some])
  qed
next
  case TimerFires
  show ?thesis
  proof (cases "timers s")
    case Nil
    then show ?thesis using inv TimerFires by (simp add: fireTimer_def)
  next
    case (Cons t rest)
    obtain d cid where t: "t = (d, cid)" by (cases t)
    have "channels (step decode x s) = AList.delete cid (channels s)"
      by (simp add: TimerFires fireTimer_def Cons t closeCallback_eq)
    then show ?thesis using all_delete [OF inv] by simp
  qed
next
  case (PayInvoice now rnd invoice)
  have "channels (step decode x s) = channels s"
    by (simp add: PayInvoice payInvoice_def Let_def split: sum.splits)
  then show ?thesis using inv by simp
qed (use inv in simp_all)

lemma run_preserves:
  assumes new: "\<And>cid scid remote txid capacity push.
      P \<lparr>channelId = cid, shortChannelId = Some scid, remotePubkey = remote, fundingTxid = txid,
         capacityMsat = capacity, localBalanceMsat = capacity - push, remoteBalanceMsat = push,
         state = Open, isUsable = True\<rparr>"
    and closing: "\<And>c. P c \<Longrightarrow> P (c\<lparr>state := Closing, isUsable := False\<rparr>)"
  shows "\<forall>c \<in> snd ` set (channels s). P c \<Longrightarrow> \<forall>c \<in> snd ` set (channels (run decode ops s)). P c"
proof (induction ops arbitrary: s)
  case Nil
  then show ?case by simp
next
  case (Cons x xs)
  have "\<forall>c \<in> snd ` set (channels (step decode x s)). P c"
    using new closing Cons.prems by (rule step_preserves)
  then have "\<forall>c \<in> snd ` set (channels (run decode xs (step decode x s))). P c"
    by (rule Cons.IH)
  then show ?case by simp
qed




subsection \<open>Reading back what \<open>backupState\<close> wrote\<close>


lemma asNodeInfo_json: "asNodeInfo (Some (jsonNodeInfo n)) = Some n"
  by (simp add: asNodeInfo_def jsonNodeInfo_def)
















subsection \<open>Ledgers that arise from a new service\<close>






subsection \<open>createChannel and the balance equation\<close>





subsection \<open>getBalance\<close>







subsection \<open>The round trip of backup and restore\<close>









subsection \<open>restoreState on a backup it cannot finish\<close>

text \<open>
  C10. \<open>restoreState\<close> assigns the node info before it builds the channel map. On a
  backup text that parses to an object whose \<open>nodeInfo\<close> is a node info and whose
  \<open>channels\<close> is a number, or an array that holds a number, \<open>new Map\<close> throws, the call
  fails with \<open>Error('Failed to restore state: ...')\<close>, and the ledger is left with the
  node info of the backup and its old channels and payments; on a new service and a
  backup with another node identifier that ledger differs from the one before the
  call. A text that does not parse leaves the ledger as it was.
\<close>

theorem restoreState_not_atomic:
  "restoreState (Blob (JObject [(''nodeInfo'', jsonNodeInfo n), (''channels'', JNumber x)])) s =
     Done (Inl (Error ''Failed to restore state: TypeError'')) (s\<lparr>nodeInfo := n\<rparr>)
   \<and> restoreState
       (Blob (JObject [(''nodeInfo'', jsonNodeInfo n), (''channels'', JArray [JNumber x])])) s =
     Done (Inl (Error ''Failed to restore state: TypeError'')) (s\<lparr>nodeInfo := n\<rparr>)
   \<and> nodeInfo (s\<lparr>nodeInfo := n\<rparr>) = n
   \<and> channels (s\<lparr>nodeInfo := n\<rparr>) = channels s
   \<and> payments (s\<lparr>nodeInfo := n\<rparr>) = payments s
   \<and> restoreState (NotJSON reason) s = Done (Inl (Error (''Failed to restore state: '' @ reason))) s
   \<and> restoreState
       (Blob (JObject
          [(''nodeInfo'', jsonNodeInfo ((nodeInfo (constructor Testnet ''02ab''))\<lparr>nodeId := ''ffff''\<rparr>)),
           (''channels'', JNumber 5)]))
       (constructor Testnet ''02ab'') =
     Done (Inl (Error ''Failed to restore state: TypeError''))
       ((constructor Testnet ''02ab'')
          \<lparr>nodeInfo := (nodeInfo (constructor Testnet ''02ab''))\<lparr>nodeId := ''ffff''\<rparr>\<rparr>)
   \<and> (constructor Testnet ''02ab'')
          \<lparr>nodeInfo := (nodeInfo (constructor Testnet ''02ab''))\<lparr>nodeId := ''ffff''\<rparr>\<rparr>
       \<noteq> constructor Testnet ''02ab''"
proof -
  have a: "restoreState (Blob (JObject [(''nodeInfo'', jsonNodeInfo n), (''channels'', JNumber x)])) s =
     Done (Inl (Error ''Failed to restore state: TypeError'')) (s\<lparr>nodeInfo := n\<rparr>)" for n x s
    by (simp add: restoreState_def restoreChannels_def restoreFailed_def asNodeInfo_json)
  have b: "restoreState
       (Blob (JObject [(''nodeInfo'', jsonNodeInfo n), (''channels'', JArray [JNumber x])])) s =
     Done (Inl (Error ''Failed to restore state: TypeError'')) (s\<lparr>nodeInfo := n\<rparr>)"
    by (simp add: restoreState_def restoreChannels_def restoreFailed_def asNodeInfo_json)
  have c: "restoreState (NotJSON reason) s = Done (Inl (Error (''Failed to restore state: '' @ reason))) s"
    by (simp add: restoreState_def restoreFailed_def)
  have d: "(constructor Testnet ''02ab'')
          \<lparr>nodeInfo := (nodeInfo (constructor Testnet ''02ab''))\<lparr>nodeId := ''ffff''\<rparr>\<rparr>
       \<noteq> constructor Testnet ''02ab''"
    by (simp add: constructor_def)
  show ?thesis using a b c d by simp
qed


end
